theory Spec2Isabelle
  imports Main "HOL-Library.Sublist"
begin

section \<open>Python values, exceptions and console output\<close>

text \<open>
  The tool is a Python script (\<^verbatim>\<open>tactility.py\<close>). Every function of the script that a
  property needs is embedded as a HOL function over an explicit \<open>world\<close>: the file
  system, the process environment, the console, the module-level flags and the traces of
  started subprocesses and opened network connections. A raised exception is the \<open>Inl\<close>
  of a sum; \<^verbatim>\<open>sys.exit(n)\<close> raises \<open>SystemExit n\<close>.
\<close>

datatype exn =
    SystemExit int
  | OSError string
  | FileNotFoundError string
  | FileExistsError string
  | NotADirectoryError string
  | IsADirectoryError string
  | RequestException string
  | HTTPException string
  | ValueError string
  | TypeError string
  | IndexError string
  | KeyError string
  | ReError string
  | UnicodeDecodeError string

text \<open>Python's class hierarchy, as far as the \<^verbatim>\<open>except\<close> clauses of the script look at it.
  \<^verbatim>\<open>IOError\<close> is an alias of \<^verbatim>\<open>OSError\<close>; \<^verbatim>\<open>requests.RequestException\<close> derives from it.\<close>

fun is_OSError :: "exn \<Rightarrow> bool" where
  "is_OSError (OSError _) = True"
| "is_OSError (FileNotFoundError _) = True"
| "is_OSError (FileExistsError _) = True"
| "is_OSError (NotADirectoryError _) = True"
| "is_OSError (IsADirectoryError _) = True"
| "is_OSError (RequestException _) = True"
| "is_OSError _ = False"

fun is_RequestException :: "exn \<Rightarrow> bool" where
  "is_RequestException (RequestException _) = True"
| "is_RequestException _ = False"

fun is_Exception :: "exn \<Rightarrow> bool" where
  "is_Exception (SystemExit _) = False"
| "is_Exception _ = True"

text \<open>\<^verbatim>\<open>str(e)\<close>, used where an exception is formatted into a message.\<close>

fun str_exn :: "exn \<Rightarrow> string" where
  "str_exn (SystemExit n) = ''SystemExit''"
| "str_exn (OSError s) = s"
| "str_exn (FileNotFoundError s) = s"
| "str_exn (FileExistsError s) = s"
| "str_exn (NotADirectoryError s) = s"
| "str_exn (IsADirectoryError s) = s"
| "str_exn (RequestException s) = s"
| "str_exn (HTTPException s) = s"
| "str_exn (ValueError s) = s"
| "str_exn (TypeError s) = s"
| "str_exn (IndexError s) = s"
| "str_exn (KeyError s) = s"
| "str_exn (ReError s) = s"
| "str_exn (UnicodeDecodeError s) = s"

text \<open>A line on the console. The colour escapes and the status glyphs of
  \<^verbatim>\<open>print_warning\<close>, \<^verbatim>\<open>print_error\<close>, \<^verbatim>\<open>print_status_busy\<close>, \<^verbatim>\<open>print_status_success\<close>
  and \<^verbatim>\<open>print_status_error\<close> are kept as the constructor, the message as its argument.\<close>

datatype msg =
    Print string
  | Warning string
  | Error string
  | StatusBusy string
  | StatusSuccess string
  | StatusError string

section \<open>The file system\<close>

text \<open>
  A path names a node textually, as the script builds it with \<^verbatim>\<open>os.path.join\<close> (POSIX
  separator); \<^verbatim>\<open>.\<close> and \<^verbatim>\<open>..\<close> components and symbolic links are not resolved by the
  model's lookups. A directory carries its entries in the order \<^verbatim>\<open>os.listdir\<close> returns
  them. A written tar archive is a file whose members are kept by name.
\<close>

datatype node =
    File string
  | Dir "string list"
  | Archive "string \<Rightarrow> node option"

type_synonym filesystem = "string \<Rightarrow> node option"

text \<open>The calls that reach the operating system and can fail for reasons outside the
  model (permissions, a full disk, a vanished device, a member that the tar format cannot
  hold): \<open>io_error\<close> of the world says which of them raise, and what.\<close>

datatype fault = OSFault string | ValueFault string

datatype syscall =
    SysListdir string
  | SysRemove string
  | SysCopy string string
  | SysMakedirs string
  | SysRmtree string
  | SysCopytree string string
  | SysOpenRead string
  | SysOpenWrite string
  | SysTarAdd string string

record world =
  fs :: filesystem
  io_error :: "syscall \<Rightarrow> fault option"
  environ :: "string \<Rightarrow> string option"
  out :: "msg list"
  verbose :: bool
  use_local_sdk :: bool
  local_base_path :: "string option"
  commands :: "string list list"
  connections :: "string list"

type_synonym 'a io = "world \<Rightarrow> (exn + 'a) \<times> world"

text \<open>A value read by \<^verbatim>\<open>json.load\<close>. A number is kept as Python prints it; an object is
  the list of the items of the resulting \<^verbatim>\<open>dict\<close>.\<close>

datatype json =
    JNull
  | JBool bool
  | JNumber string
  | JString string
  | JArray "json list"
  | JObject "(string \<times> json) list"

text \<open>
  A line of bytes read from a subprocess pipe, kept by what \<^verbatim>\<open>line.decode("UTF-8")\<close>
  makes of it: text, or bytes that are not UTF-8.
\<close>

datatype raw_line = Text string | Undecodable string

text \<open>
  A started subprocess, by what it does until it exits: for each iteration of
  \<^verbatim>\<open>while process.poll() is None\<close> the lines \<^verbatim>\<open>readline\<close> yields before it reports that
  no data is waiting, the lines left in the pipe once the process has exited, the
  return code, and the file system the process leaves behind. A tool that never exits is
  outside the model.
\<close>

record process_run =
  rounds :: "raw_line list list"
  remaining :: "raw_line list"
  returncode :: int
  fs_after :: filesystem

text \<open>What the script calls and this repository does not contain: the URL parser
  (\<^verbatim>\<open>urlparse(url).scheme\<close>, which raises \<^verbatim>\<open>ValueError\<close> on a malformed URL), the network,
  the build tool started by \<^verbatim>\<open>subprocess.Popen\<close> (which raises when the program cannot be
  started), the regular-expression engine (\<^verbatim>\<open>re.search(pattern, string) is not None\<close>,
  raising on a pattern that does not compile), Python's \<^verbatim>\<open>str()\<close> of a JSON value that is
  not a string, and the device. They are parameters of the model.\<close>

record externals =
  url_scheme :: "string \<Rightarrow> exn + string"
  urlopen :: "string \<Rightarrow> exn + (exn + string)"
  run_process :: "string list \<Rightarrow> filesystem \<Rightarrow> exn + process_run"
  re_search :: "string \<Rightarrow> string \<Rightarrow> exn + bool"
  py_str :: "json \<Rightarrow> string"
  requests_put :: "string \<Rightarrow> node \<Rightarrow> exn + int"

fun raise_fault :: "fault \<Rightarrow> exn" where
  "raise_fault (OSFault s) = OSError s"
| "raise_fault (ValueFault s) = ValueError s"

subsection \<open>Module constants\<close>

definition ttbuild_path :: string where "ttbuild_path = ''.tactility''"
definition ttbuild_version :: string where "ttbuild_version = ''3.4.0''"
definition ttbuild_cdn :: string where "ttbuild_cdn = ''https://cdn.tactilityproject.org''"
definition ttport :: string where "ttport = ''6666''"
definition os_sep :: string where "os_sep = ''/''"

subsection \<open>Console\<close>

definition emit :: "msg \<Rightarrow> world \<Rightarrow> world" where
  "emit m w = w\<lparr>out := out w @ [m]\<rparr>"

definition print_warning :: "string \<Rightarrow> world \<Rightarrow> world" where
  "print_warning message = emit (Warning message)"

definition print_error :: "string \<Rightarrow> world \<Rightarrow> world" where
  "print_error message = emit (Error message)"

definition print_status_busy :: "string \<Rightarrow> world \<Rightarrow> world" where
  "print_status_busy status = emit (StatusBusy status)"

definition print_status_success :: "string \<Rightarrow> world \<Rightarrow> world" where
  "print_status_success status = emit (StatusSuccess status)"

definition print_status_error :: "string \<Rightarrow> world \<Rightarrow> world" where
  "print_status_error status = emit (StatusError status)"

definition exit_with_error :: "string \<Rightarrow> 'a io" where
  "exit_with_error message w = (Inl (SystemExit 1), print_error message w)"

subsection \<open>Paths\<close>

text \<open>\<^verbatim>\<open>posixpath.join\<close> for two components.\<close>

definition os_path_join :: "string \<Rightarrow> string \<Rightarrow> string" where
  "os_path_join a b =
     (if prefix os_sep b then b
      else if a = [] \<or> suffix os_sep a then a @ b
      else a @ os_sep @ b)"

text \<open>\<^verbatim>\<open>posixpath.dirname\<close> and \<^verbatim>\<open>posixpath.basename\<close>: split at the last separator
  (the head keeps no trailing separator unless it is the root).\<close>

definition os_path_basename :: "string \<Rightarrow> string" where
  "os_path_basename p = rev (takeWhile (\<lambda>c. c \<noteq> CHR ''/'') (rev p))"

definition os_path_dirname :: "string \<Rightarrow> string" where
  "os_path_dirname p =
     (let head = rev (dropWhile (\<lambda>c. c \<noteq> CHR ''/'') (rev p));
          stripped = rev (dropWhile (\<lambda>c. c = CHR ''/'') (rev head))
      in if head \<noteq> [] \<and> stripped = [] then head else stripped)"

definition os_path_exists :: "string \<Rightarrow> world \<Rightarrow> bool" where
  "os_path_exists p w = (fs w p \<noteq> None)"

definition os_path_isdir :: "string \<Rightarrow> world \<Rightarrow> bool" where
  "os_path_isdir p w = (case fs w p of Some (Dir _) \<Rightarrow> True | _ \<Rightarrow> False)"

definition os_path_isfile :: "string \<Rightarrow> world \<Rightarrow> bool" where
  "os_path_isfile p w =
     (case fs w p of Some (File _) \<Rightarrow> True | Some (Archive _) \<Rightarrow> True | _ \<Rightarrow> False)"

section \<open>Core: download_file\<close>

text \<open>\<^verbatim>\<open>open(filepath, mode="wb")\<close> followed by one \<^verbatim>\<open>write\<close>: the file is created or
  truncated when it is opened, so a failed read of the response leaves it empty.\<close>

definition parent_ok :: "string \<Rightarrow> world \<Rightarrow> bool" where
  "parent_ok p w = (os_path_dirname p = [] \<or> os_path_isdir (os_path_dirname p) w)"

definition add_entry :: "string \<Rightarrow> filesystem \<Rightarrow> filesystem" where
  "add_entry p f =
     (case f (os_path_dirname p) of
        Some (Dir es) \<Rightarrow>
          (if os_path_basename p \<in> set es then f
           else f(os_path_dirname p \<mapsto> Dir (es @ [os_path_basename p])))
      | _ \<Rightarrow> f)"

definition put_node :: "string \<Rightarrow> node \<Rightarrow> world \<Rightarrow> world" where
  "put_node p n w = w\<lparr>fs := (add_entry p (fs w))(p \<mapsto> n)\<rparr>"



section \<open>Sequencing\<close>

text \<open>Statement sequencing: an exception raised by the first statement ends the block.\<close>

definition io_bind :: "'a io \<Rightarrow> ('a \<Rightarrow> 'b io) \<Rightarrow> 'b io" where
  "io_bind m k w = (case m w of (Inl e, w') \<Rightarrow> (Inl e, w') | (Inr x, w') \<Rightarrow> k x w')"

definition io_return :: "'a \<Rightarrow> 'a io" where
  "io_return x w = (Inr x, w)"

text \<open>A call that only reads the world.\<close>

definition io_read :: "(world \<Rightarrow> exn + 'a) \<Rightarrow> 'a io" where
  "io_read f w = (f w, w)"

text \<open>\<^verbatim>\<open>sep.join(xs)\<close>\<close>

fun str_join :: "string \<Rightarrow> string list \<Rightarrow> string" where
  "str_join sep [] = []"
| "str_join sep [x] = x"
| "str_join sep (x # y # ys) = x @ sep @ str_join sep (y # ys)"

text \<open>\<^verbatim>\<open>if verbose: print(...)\<close>\<close>

definition print_verbose :: "string \<Rightarrow> world \<Rightarrow> world" where
  "print_verbose s w = (if verbose w then emit (Print s) w else w)"

section \<open>Operating-system calls\<close>

definition os_listdir :: "string \<Rightarrow> world \<Rightarrow> exn + string list" where
  "os_listdir p w =
     (case io_error w (SysListdir p) of
        Some e \<Rightarrow> Inl (raise_fault e)
      | None \<Rightarrow>
          (case fs w p of
             Some (Dir es) \<Rightarrow> Inr es
           | Some _ \<Rightarrow> Inl (NotADirectoryError p)
           | None \<Rightarrow> Inl (FileNotFoundError p)))"

definition remove_entry :: "string \<Rightarrow> filesystem \<Rightarrow> filesystem" where
  "remove_entry p f =
     (case f (os_path_dirname p) of
        Some (Dir es) \<Rightarrow> f(os_path_dirname p \<mapsto> Dir (removeAll (os_path_basename p) es))
      | _ \<Rightarrow> f)"

definition os_remove :: "string \<Rightarrow> unit io" where
  "os_remove p w =
     (case io_error w (SysRemove p) of
        Some e \<Rightarrow> (Inl (raise_fault e), w)
      | None \<Rightarrow>
          (case fs w p of
             None \<Rightarrow> (Inl (FileNotFoundError p), w)
           | Some (Dir _) \<Rightarrow> (Inl (IsADirectoryError p), w)
           | Some _ \<Rightarrow> (Inr (), w\<lparr>fs := (remove_entry p (fs w))(p := None)\<rparr>)))"

text \<open>\<^verbatim>\<open>shutil.copy(src, dst)\<close>: into \<open>dst\<close> when it is a directory, onto it otherwise.\<close>

definition shutil_copy :: "string \<Rightarrow> string \<Rightarrow> unit io" where
  "shutil_copy src dst w =
     (case io_error w (SysCopy src dst) of
        Some e \<Rightarrow> (Inl (raise_fault e), w)
      | None \<Rightarrow>
          (let target = (if os_path_isdir dst w
                         then os_path_join dst (os_path_basename src) else dst)
           in case fs w src of
                None \<Rightarrow> (Inl (FileNotFoundError src), w)
              | Some (Dir _) \<Rightarrow> (Inl (IsADirectoryError src), w)
              | Some n \<Rightarrow>
                  if target = src then (Inl (OSError src), w)
                  else if os_path_isdir target w then (Inl (IsADirectoryError target), w)
                  else if \<not> parent_ok target w then (Inl (FileNotFoundError target), w)
                  else (Inr (), put_node target n w)))"

section \<open>SDK helpers\<close>

definition get_sdk_dir :: "string \<Rightarrow> string \<Rightarrow> string io" where
  "get_sdk_dir version platform w =
     (if use_local_sdk w then
        (case local_base_path w of
           None \<Rightarrow> exit_with_error ''TACTILITY_SDK_PATH environment variable is not set'' w
         | Some base_path \<Rightarrow>
             (let sdk_parent_dir = os_path_join base_path (version @ ''-'' @ platform);
                  sdk_dir = os_path_join sdk_parent_dir ''TactilitySDK''
              in if \<not> os_path_isdir sdk_dir w
                 then exit_with_error
                        (''Local SDK folder not found for platform '' @ platform @ '': '' @ sdk_dir) w
                 else (Inr sdk_dir, w)))
      else (Inr (os_path_join (os_path_join ttbuild_path (version @ ''-'' @ platform))
                   ''TactilitySDK''), w))"

definition get_sdk_root_dir :: "string \<Rightarrow> string \<Rightarrow> string" where
  "get_sdk_root_dir version platform = os_path_join ttbuild_path (version @ ''-'' @ platform)"

definition get_sdk_url :: "string \<Rightarrow> string \<Rightarrow> string" where
  "get_sdk_url version file = ttbuild_cdn @ ''/sdk/'' @ version @ ''/'' @ file"

definition sdk_exists :: "string \<Rightarrow> string \<Rightarrow> bool io" where
  "sdk_exists version platform =
     io_bind (get_sdk_dir version platform) (\<lambda>sdk_dir w. (Inr (os_path_isdir sdk_dir w), w))"

section \<open>Building\<close>

definition get_cmake_path :: "string \<Rightarrow> string" where
  "get_cmake_path platform = os_path_join ''build'' (''cmake-build-'' @ platform)"

text \<open>The first directory entry, in listing order, that ends with \<^verbatim>\<open>.app.elf\<close>.\<close>

definition find_elf_file :: "string \<Rightarrow> world \<Rightarrow> exn + string option" where
  "find_elf_file platform w =
     (let cmake_dir = get_cmake_path platform
      in if os_path_exists cmake_dir w then
           (case os_listdir cmake_dir w of
              Inl e \<Rightarrow> Inl e
            | Inr files \<Rightarrow>
                (case filter (\<lambda>file. suffix ''.app.elf'' file) files of
                   [] \<Rightarrow> Inr None
                 | file # _ \<Rightarrow> Inr (Some (os_path_join cmake_dir file))))
         else Inr None)"

text \<open>\<^verbatim>\<open>line.decode("UTF-8")\<close> and the truth value of a line of bytes.\<close>

fun decode :: "raw_line \<Rightarrow> exn + string" where
  "decode (Text s) = Inr s"
| "decode (Undecodable b) = Inl (UnicodeDecodeError b)"

fun line_nonempty :: "raw_line \<Rightarrow> bool" where
  "line_nonempty (Text s) = (s \<noteq> [])"
| "line_nonempty (Undecodable b) = True"

text \<open>The inner \<^verbatim>\<open>while True\<close> of \<open>wait_for_process\<close>: read lines until \<^verbatim>\<open>readline\<close>
  gives nothing.\<close>

fun read_available :: "raw_line list \<Rightarrow> string list \<Rightarrow> exn + string list" where
  "read_available [] buffer = Inr buffer"
| "read_available (line # lines) buffer =
     (if line_nonempty line then
        (case decode line of
           Inl e \<Rightarrow> Inl e
         | Inr decoded_line \<Rightarrow>
             if decoded_line \<noteq> [] then read_available lines (buffer @ [decoded_line])
             else Inr buffer)
      else Inr buffer)"

text \<open>The outer \<^verbatim>\<open>while process.poll() is None\<close>.\<close>

fun poll_loop :: "raw_line list list \<Rightarrow> string list \<Rightarrow> exn + string list" where
  "poll_loop [] buffer = Inr buffer"
| "poll_loop (available # later) buffer =
     (case read_available available buffer of
        Inl e \<Rightarrow> Inl e
      | Inr buffer' \<Rightarrow> poll_loop later buffer')"

text \<open>\<^verbatim>\<open>for line in process.stdout\<close>: the remaining output.\<close>

fun drain :: "raw_line list \<Rightarrow> string list \<Rightarrow> exn + string list" where
  "drain [] buffer = Inr buffer"
| "drain (line # lines) buffer =
     (case decode line of
        Inl e \<Rightarrow> Inl e
      | Inr decoded_line \<Rightarrow>
          drain lines (if decoded_line \<noteq> [] then buffer @ [decoded_line] else buffer))"

definition wait_for_process :: "process_run \<Rightarrow> exn + string list" where
  "wait_for_process process =
     (case poll_loop (rounds process) [] of
        Inl e \<Rightarrow> Inl e
      | Inr buffer \<Rightarrow> drain (remaining process) buffer)"

text \<open>
  \<^verbatim>\<open>with subprocess.Popen(build_command, ...) as process: build_output = wait_for_process(process)\<close>.
  \<open>commands\<close> records every call of \<^verbatim>\<open>Popen\<close>. When \<^verbatim>\<open>Popen\<close> raises, nothing has run;
  when decoding raises, leaving the \<^verbatim>\<open>with\<close> block still waits for the process.
\<close>

definition popen_wait :: "externals \<Rightarrow> string list \<Rightarrow> (int \<times> string list) io" where
  "popen_wait ext build_command w =
     (case run_process ext build_command (fs w) of
        Inl e \<Rightarrow> (Inl e, w\<lparr>commands := commands w @ [build_command]\<rparr>)
      | Inr process \<Rightarrow>
          (case wait_for_process process of
             Inl e \<Rightarrow>
               (Inl e, w\<lparr>fs := fs_after process, commands := commands w @ [build_command]\<rparr>)
           | Inr build_output \<Rightarrow>
               (Inr (returncode process, build_output),
                w\<lparr>fs := fs_after process, commands := commands w @ [build_command]\<rparr>)))"

definition print_lines :: "string list \<Rightarrow> world \<Rightarrow> world" where
  "print_lines ls w = w\<lparr>out := out w @ map Print ls\<rparr>"

text \<open>The part that \<open>build_first\<close> and \<open>build_consecutively\<close> both start with: resolve
  the SDK directory, export it, copy the platform's sdkconfig into the project.\<close>

definition build_setup :: "string \<Rightarrow> string \<Rightarrow> unit io" where
  "build_setup version platform =
     io_bind (get_sdk_dir version platform) (\<lambda>sdk_dir w.
       (let w1 = print_verbose (''Using SDK at '' @ sdk_dir) w;
            w2 = w1\<lparr>environ := (environ w1)(''TACTILITY_SDK_PATH'' \<mapsto> sdk_dir)\<rparr>;
            sdkconfig_path = os_path_join ttbuild_path (''sdkconfig.app.'' @ platform)
        in shutil_copy sdkconfig_path ''sdkconfig'' w2))"

definition build_first :: "externals \<Rightarrow> string \<Rightarrow> string \<Rightarrow> bool \<Rightarrow> bool io" where
  "build_first ext version platform skip_build =
     io_bind (build_setup version platform) (\<lambda>_.
     io_bind (io_read (find_elf_file platform)) (\<lambda>elf_path.
     io_bind (case elf_path of None \<Rightarrow> io_return () | Some p \<Rightarrow> os_remove p) (\<lambda>_ w.
       if skip_build then (Inr True, w)
       else
         (let w1 = emit (Print (''Building first '' @ platform @ '' build'')) w;
              cmake_path = get_cmake_path platform;
              w2 = print_status_busy (''Building '' @ platform @ '' ELF'') w1;
              build_command = [''idf.py'', ''-B'', cmake_path, ''build''];
              w3 = print_verbose (''Running command: '' @ str_join '' '' build_command) w2
          in case popen_wait ext build_command w3 of
               (Inl e, w4) \<Rightarrow> (Inl e, w4)
             | (Inr (rc, build_output), w4) \<Rightarrow>
                 if rc = 0
                 then (Inr True, emit (Print (''Building for '' @ platform)) w4)
                 else
                   (case find_elf_file platform w4 of
                      Inl e \<Rightarrow> (Inl e, w4)
                    | Inr None \<Rightarrow>
                        (Inr False,
                         print_status_error (''Building '' @ platform @ '' ELF'')
                           (print_lines build_output w4))
                    | Inr (Some _) \<Rightarrow>
                        (Inr True,
                         print_status_success (''Building '' @ platform @ '' ELF'') w4))))))"

definition build_consecutively :: "externals \<Rightarrow> string \<Rightarrow> string \<Rightarrow> bool \<Rightarrow> bool io" where
  "build_consecutively ext version platform skip_build =
     io_bind (build_setup version platform) (\<lambda>_ w.
       if skip_build then (Inr True, w)
       else
         (let cmake_path = get_cmake_path platform;
              w1 = print_status_busy (''Building '' @ platform @ '' ELF'') w;
              build_command = [''idf.py'', ''-B'', cmake_path, ''elf''];
              w2 = print_verbose (''Running command: '' @ str_join '' '' build_command) w1
          in case popen_wait ext build_command w2 of
               (Inl e, w3) \<Rightarrow> (Inl e, w3)
             | (Inr (rc, build_output), w3) \<Rightarrow>
                 if rc = 0
                 then (Inr True, print_status_success (''Building '' @ platform @ '' ELF'') w3)
                 else (Inr False,
                       print_status_error (''Building '' @ platform @ '' ELF'')
                         (print_lines build_output w3))))"

text \<open>The \<^verbatim>\<open>for\<close> loop of \<open>build_all\<close>, by recursion on the platforms left.\<close>

fun build_all :: "externals \<Rightarrow> string \<Rightarrow> string list \<Rightarrow> bool \<Rightarrow> bool io" where
  "build_all ext version [] skip_build w = (Inr True, w)"
| "build_all ext version (platform # platforms) skip_build w =
     (case find_elf_file platform w of
        Inl e \<Rightarrow> (Inl e, w)
      | Inr None \<Rightarrow>
          (case build_first ext version platform skip_build w of
             (Inl e, w') \<Rightarrow> (Inl e, w')
           | (Inr ok, w') \<Rightarrow>
               if \<not> ok then (Inr False, w') else build_all ext version platforms skip_build w')
      | Inr (Some _) \<Rightarrow>
          (case build_consecutively ext version platform skip_build w of
             (Inl e, w') \<Rightarrow> (Inl e, w')
           | (Inr ok, w') \<Rightarrow>
               if \<not> ok then (Inr False, w') else build_all ext version platforms skip_build w'))"

section \<open>Validation\<close>

text \<open>\<^verbatim>\<open>key in value\<close> and \<^verbatim>\<open>value[key]\<close> for a string key and a value read from JSON:
  a dict is asked for the key, a list for an equal element, a string for a substring;
  anything else is not iterable, and only a dict can be indexed by a string.\<close>

definition py_contains :: "string \<Rightarrow> json \<Rightarrow> exn + bool" where
  "py_contains key v =
     (case v of
        JObject items \<Rightarrow> Inr (map_of items key \<noteq> None)
      | JArray xs \<Rightarrow> Inr (JString key \<in> set xs)
      | JString s \<Rightarrow> Inr (sublist key s)
      | _ \<Rightarrow> Inl (TypeError ''argument is not iterable''))"

definition py_getitem :: "json \<Rightarrow> string \<Rightarrow> exn + json" where
  "py_getitem v key =
     (case v of
        JObject items \<Rightarrow>
          (case map_of items key of None \<Rightarrow> Inl (KeyError key) | Some x \<Rightarrow> Inr x)
      | _ \<Rightarrow> Inl (TypeError ''indices must be integers''))"

text \<open>The value inside an f-string.\<close>

definition str_json :: "externals \<Rightarrow> json \<Rightarrow> string" where
  "str_json ext v = (case v of JString s \<Rightarrow> s | _ \<Rightarrow> py_str ext v)"

text \<open>\<^verbatim>\<open>re.search(pattern, string) is not None\<close> for a pattern read from JSON.\<close>

definition re_search_json :: "externals \<Rightarrow> json \<Rightarrow> string \<Rightarrow> exn + bool" where
  "re_search_json ext pattern s =
     (case pattern of
        JString p \<Rightarrow> re_search ext p s
      | _ \<Rightarrow> Inl (TypeError ''first argument must be string or compiled pattern''))"

definition validate_self :: "externals \<Rightarrow> json \<Rightarrow> unit io" where
  "validate_self ext sdk_json =
     io_bind (io_read (\<lambda>_. py_contains ''toolVersion'' sdk_json)) (\<lambda>found.
     io_bind (if \<not> found
              then exit_with_error
                     ''Server returned invalid SDK data format (toolVersion not found)''
              else io_return ()) (\<lambda>_.
     io_bind (io_read (\<lambda>_. py_contains ''toolCompatibility'' sdk_json)) (\<lambda>found.
     io_bind (if \<not> found
              then exit_with_error
                     ''Server returned invalid SDK data format (toolCompatibility not found)''
              else io_return ()) (\<lambda>_.
     io_bind (io_read (\<lambda>_. py_contains ''toolDownloadUrl'' sdk_json)) (\<lambda>found.
     io_bind (if \<not> found
              then exit_with_error
                     ''Server returned invalid SDK data format (toolDownloadUrl not found)''
              else io_return ()) (\<lambda>_.
     io_bind (io_read (\<lambda>_. py_getitem sdk_json ''toolVersion'')) (\<lambda>tool_version.
     io_bind (io_read (\<lambda>_. py_getitem sdk_json ''toolCompatibility'')) (\<lambda>tool_compatibility w.
       (let w1 = (if tool_version \<noteq> JString ttbuild_version
                  then print_warning ''Run 'tactility.py updateself' to update.''
                         (print_warning (''New version available: '' @ str_json ext tool_version
                            @ '' (currently using '' @ ttbuild_version @ '')'') w)
                  else w)
        in case re_search_json ext tool_compatibility ttbuild_version of
             Inl e \<Rightarrow> (Inl e, w1)
           | Inr matched \<Rightarrow>
               if \<not> matched
               then (Inl (SystemExit 1),
                     print_error ''Run 'tactility.py updateself' to update.''
                       (print_error ''The tool is not compatible anymore.'' w1))
               else (Inr (), w1))))))))))"

section \<open>Packaging: the archive name\<close>

text \<open>\<^verbatim>\<open>str.removesuffix\<close>\<close>

definition removesuffix :: "string \<Rightarrow> string \<Rightarrow> string" where
  "removesuffix suf s =
     (if suf \<noteq> [] \<and> suffix suf s then take (length s - length suf) s else s)"

text \<open>\<^verbatim>\<open>platforms[0]\<close> raises \<^verbatim>\<open>IndexError\<close> on an empty list, and \<^verbatim>\<open>os.path.basename(None)\<close>
  raises \<^verbatim>\<open>TypeError\<close>.\<close>

definition package_name :: "string list \<Rightarrow> world \<Rightarrow> exn + string" where
  "package_name platforms w =
     (case platforms of
        [] \<Rightarrow> Inl (IndexError ''list index out of range'')
      | platform # _ \<Rightarrow>
          (case find_elf_file platform w of
             Inl e \<Rightarrow> Inl e
           | Inr None \<Rightarrow> Inl (TypeError ''expected str, bytes or os.PathLike object, not NoneType'')
           | Inr (Some elf_path) \<Rightarrow>
               (let elf_base_name = removesuffix ''.app.elf'' (os_path_basename elf_path)
                in Inr (os_path_join ''build'' (elf_base_name @ ''.app'')))))"

section \<open>Device client: install\<close>

definition get_url :: "string \<Rightarrow> string \<Rightarrow> string" where
  "get_url ip path = ''http://'' @ ip @ '':'' @ ttport @ path"

text \<open>\<^verbatim>\<open>open(path, 'rb')\<close>\<close>

definition os_open_read :: "string \<Rightarrow> world \<Rightarrow> exn + node" where
  "os_open_read p w =
     (case io_error w (SysOpenRead p) of
        Some e \<Rightarrow> Inl (raise_fault e)
      | None \<Rightarrow>
          (case fs w p of
             None \<Rightarrow> Inl (FileNotFoundError p)
           | Some (Dir _) \<Rightarrow> Inl (IsADirectoryError p)
           | Some n \<Rightarrow> Inr n))"

text \<open>The \<^verbatim>\<open>for\<close> loop at the head of \<open>install_action\<close>: \<open>False\<close> when it returned from the
  function, \<open>True\<close> when it ran to its end.\<close>

fun install_action_loop :: "string list \<Rightarrow> bool io" where
  "install_action_loop [] w = (Inr True, w)"
| "install_action_loop (platform # platforms) w =
     (case find_elf_file platform w of
        Inl e \<Rightarrow> (Inl e, w)
      | Inr None \<Rightarrow> (Inr False, print_status_error (''ELF file not built for '' @ platform) w)
      | Inr (Some _) \<Rightarrow> install_action_loop platforms w)"

text \<open>
  \<open>requests_put url file\<close> is \<^verbatim>\<open>requests.put(url, files={'elf': file}, timeout=...)\<close>: the
  status code of the response, or the exception raised. The two \<^verbatim>\<open>except\<close> clauses are
  tried in the order of the source.
\<close>

definition install_action :: "externals \<Rightarrow> string \<Rightarrow> string list \<Rightarrow> bool io" where
  "install_action ext ip platforms w0 =
     (case install_action_loop platforms (print_status_busy ''Installing'' w0) of
        (Inl e, w1) \<Rightarrow> (Inl e, w1)
      | (Inr False, w1) \<Rightarrow> (Inr False, w1)
      | (Inr True, w1) \<Rightarrow>
          (case package_name platforms w1 of
             Inl e \<Rightarrow> (Inl e, w1)
           | Inr package_path \<Rightarrow>
               (let url = get_url ip ''/app/install'';
                    handler = (\<lambda>e wx.
                      if is_RequestException e
                      then (Inr False,
                            print_status_error (''Install request failed: '' @ str_exn e) wx)
                      else if is_OSError e
                      then (Inr False,
                            print_status_error (''Install file error: '' @ str_exn e) wx)
                      else (Inl e, wx))
                in case os_open_read package_path w1 of
                     Inl e \<Rightarrow> handler e w1
                   | Inr file \<Rightarrow>
                       (let w2 = w1\<lparr>connections := connections w1 @ [url]\<rparr>
                        in case requests_put ext url file of
                             Inl e \<Rightarrow> handler e w2
                           | Inr status_code \<Rightarrow>
                               if status_code \<noteq> 200
                               then (Inr False, print_status_error ''Install failed'' w2)
                               else (Inr True, print_status_success ''Installing'' w2)))))"

section \<open>A concrete environment for evaluation\<close>

text \<open>A small project directory and fixed external collaborators, used to evaluate the
  embedded functions on concrete inputs.\<close>

definition failing_tool :: "string list \<Rightarrow> filesystem \<Rightarrow> exn + process_run" where
  "failing_tool cmd f =
     Inr \<lparr> rounds = [], remaining = [Text ''ninja: build stopped''], returncode = 1,
           fs_after = f \<rparr>"

definition example_externals :: externals where
  "example_externals =
     \<lparr> url_scheme = (\<lambda>u. if CHR ''['' \<in> set u \<and> CHR '']'' \<notin> set u then Inl (ValueError ''Invalid IPv6 URL'')
                         else if CHR '':'' \<in> set u then Inr (takeWhile (\<lambda>c. c \<noteq> CHR '':'') u)
                         else Inr []),
       urlopen = (\<lambda>u. Inr (Inr ''{}'')),
       run_process = failing_tool,
       re_search = (\<lambda>pat s. if pat = [] then Inl (ReError ''nothing to match'')
                              else Inr (prefix pat s)),
       py_str = (\<lambda>v. ''<value>''),
       requests_put = (\<lambda>u n. if u = ''http://192.168.1.5:6666/app/install'' then Inr 200
                              else if u = ''http://192.168.1.6:6666/app/install'' then Inr 500
                              else Inl (RequestException ''ConnectTimeout'')) \<rparr>"

definition empty_world :: world where
  "empty_world =
     \<lparr> fs = Map.empty, io_error = (\<lambda>c. None), environ = Map.empty, out = [],
       verbose = False, use_local_sdk = False, local_base_path = None,
       commands = [], connections = [] \<rparr>"

definition example_fs :: filesystem where
  "example_fs =
     [''.tactility'' \<mapsto> Dir [''sdkconfig.app.esp32'', ''sdkconfig.app.esp32s3'',
                               ''sdkconfig.app.esp32c6'', ''tool.json''],
      ''.tactility/sdkconfig.app.esp32'' \<mapsto> File ''CONFIG_IDF_TARGET=esp32'',
      ''.tactility/sdkconfig.app.esp32s3'' \<mapsto> File ''CONFIG_IDF_TARGET=esp32s3'',
      ''.tactility/sdkconfig.app.esp32c6'' \<mapsto> File ''CONFIG_IDF_TARGET=esp32c6'',
      ''manifest.properties'' \<mapsto> File ''[app]'',
      ''build'' \<mapsto> Dir [''cmake-build-esp32'', ''hello.app''],
      ''build/hello.app'' \<mapsto> File ''ustar'',
      ''build/cmake-build-esp32'' \<mapsto> Dir [''build.ninja'', ''hello.app.elf''],
      ''build/cmake-build-esp32/build.ninja'' \<mapsto> File ''rules'',
      ''build/cmake-build-esp32/hello.app.elf'' \<mapsto> File ''ELF-esp32'']"

definition example_world :: world where
  "example_world = empty_world\<lparr>fs := example_fs\<rparr>"

text \<open>A build tool as the script's comments describe it: the incremental command of
  \<^verbatim>\<open>esp32\<close> succeeds; the full build of \<^verbatim>\<open>esp32s3\<close> writes the ELF file and still exits
  with an error; everything else fails and writes nothing.\<close>

definition example_tool :: "string list \<Rightarrow> filesystem \<Rightarrow> exn + process_run" where
  "example_tool cmd f =
     (if cmd = [''idf.py'', ''-B'', ''build/cmake-build-esp32'', ''elf'']
      then Inr \<lparr> rounds = [[Text ''[1/1] Linking'']], remaining = [], returncode = 0,
                 fs_after = f \<rparr>
      else if cmd = [''idf.py'', ''-B'', ''build/cmake-build-esp32s3'', ''build'']
      then Inr \<lparr> rounds = [[Text ''[9/9] Generating hello.app.elf'']],
                 remaining = [Text ''elf target failed''], returncode = 2,
                 fs_after = f(''build/cmake-build-esp32s3'' \<mapsto> Dir [''hello.app.elf''],
                              ''build/cmake-build-esp32s3/hello.app.elf'' \<mapsto> File ''ELF-esp32s3'') \<rparr>
      else failing_tool cmd f)"

definition example_build :: externals where
  "example_build = example_externals\<lparr>run_process := example_tool\<rparr>"



definition garbled_tool :: "string list \<Rightarrow> filesystem \<Rightarrow> exn + process_run" where
  "garbled_tool cmd f =
     Inr \<lparr> rounds = [], remaining = [Undecodable ''invalid start byte''], returncode = 0,
           fs_after = f \<rparr>"

definition garbled_build :: externals where
  "garbled_build = example_externals\<lparr>run_process := garbled_tool\<rparr>"

section \<open>Properties\<close>

subsection \<open>Auxiliary facts\<close>

lemma pair_fstI: "fst x = a \<Longrightarrow> x = (a, snd x)"
  by (cases x) simp

lemma console_fs [simp]:
  "fs (emit m w) = fs w" "io_error (emit m w) = io_error w"
  "fs (print_verbose s w) = fs w" "io_error (print_verbose s w) = io_error w"
  "fs (print_status_busy s w) = fs w" "io_error (print_status_busy s w) = io_error w"
  "fs (print_status_error s w) = fs w" "io_error (print_status_error s w) = io_error w"
  "fs (print_status_success s w) = fs w" "io_error (print_status_success s w) = io_error w"
  "fs (print_error s w) = fs w" "io_error (print_error s w) = io_error w"
  "fs (print_lines ls w) = fs w" "io_error (print_lines ls w) = io_error w"
  by (simp_all add: emit_def print_verbose_def print_status_busy_def print_status_error_def
        print_status_success_def print_error_def print_lines_def)

lemma console_commands [simp]:
  "commands (emit m w) = commands w"
  "commands (print_verbose s w) = commands w"
  "commands (print_status_busy s w) = commands w"
  "commands (print_status_error s w) = commands w"
  "commands (print_status_success s w) = commands w"
  "commands (print_lines ls w) = commands w"
  by (simp_all add: emit_def print_verbose_def print_status_busy_def print_status_error_def
        print_status_success_def print_lines_def)

text \<open>\<open>find_elf_file\<close> looks at the platform's build directory only.\<close>

lemma find_elf_file_cong:
  assumes "fs w (get_cmake_path p) = fs w' (get_cmake_path p)" and "io_error w = io_error w'"
  shows "find_elf_file p w = find_elf_file p w'"
proof -
  have "os_listdir (get_cmake_path p) w = os_listdir (get_cmake_path p) w'"
    unfolding os_listdir_def assms by (rule refl)
  then show ?thesis
    by (simp add: find_elf_file_def os_path_exists_def Let_def assms)
qed






lemma put_node_io_error [simp]: "io_error (put_node p n w) = io_error w"
  by (simp add: put_node_def)



lemma build_all_append:
  "build_all ext v as sk w = (Inr True, w1) \<Longrightarrow>
   build_all ext v (as @ bs) sk w = build_all ext v bs sk w1"
proof (induction as arbitrary: w)
  case Nil
  then show ?case by simp
next
  case (Cons a as)
  then show ?case
    by (auto split: sum.splits option.splits prod.splits if_splits)
qed

lemma build_all_single:
  "find_elf_file p w = Inr (Some elf) \<Longrightarrow>
   build_all ext v [p] sk w = build_consecutively ext v p sk w"
  by (cases "build_consecutively ext v p sk w") (auto split: sum.splits)

subsection \<open>Unsupported URL schemes\<close>



subsection \<open>The first build\<close>




subsection \<open>Fail-fast iteration\<close>

text \<open>
  C4. \<open>build_all\<close> goes through the platforms in list order and stops at the first one
  whose build fails: when the platforms \<open>as\<close> build successfully and the build chosen for
  \<open>b\<close> (the first build without an ELF artifact, the incremental build with one) returns
  failure, the result for \<open>as @ b # cs\<close> is failure and the world is the one \<open>b\<close>'s failed
  build leaves, whatever \<open>cs\<close> is, so nothing is attempted for \<open>cs\<close>.
\<close>

theorem build_all_fail_fast:
  assumes "build_all ext v as sk w = (Inr True, w1)"
    and "find_elf_file b w1 = Inr found"
    and "(case found of
            None \<Rightarrow> build_first ext v b sk w1
          | Some _ \<Rightarrow> build_consecutively ext v b sk w1) = (Inr False, w2)"
  shows "build_all ext v (as @ b # cs) sk w = (Inr False, w2)"
proof -
  have "build_all ext v (as @ b # cs) sk w = build_all ext v (b # cs) sk w1"
    using assms(1) by (rule build_all_append)
  also have "\<dots> = (Inr False, w2)"
    using assms(2,3) by (cases found) simp_all
  finally show ?thesis .
qed

theorem build_all_fail_fast_witness:
  "fst (build_all example_build ''0.6.0'' [''esp32'', ''esp32c6'', ''esp32s3''] False example_world)
     = Inr False
   \<and> commands (snd (build_all example_build ''0.6.0'' [''esp32'', ''esp32c6'', ''esp32s3''] False
                      example_world))
     = [[''idf.py'', ''-B'', ''build/cmake-build-esp32'', ''elf''],
        [''idf.py'', ''-B'', ''build/cmake-build-esp32c6'', ''build'']]"
proof -
  let ?w1 = "snd (build_all example_build ''0.6.0'' [''esp32''] False example_world)"
  let ?w2 = "snd (build_first example_build ''0.6.0'' ''esp32c6'' False ?w1)"
  have h1: "build_all example_build ''0.6.0'' [''esp32''] False example_world = (Inr True, ?w1)"
    by (rule pair_fstI) code_simp
  have h2: "find_elf_file ''esp32c6'' ?w1 = Inr None"
    by code_simp
  have h3: "(case None :: string option of
               None \<Rightarrow> build_first example_build ''0.6.0'' ''esp32c6'' False ?w1
             | Some _ \<Rightarrow> build_consecutively example_build ''0.6.0'' ''esp32c6'' False ?w1)
              = (Inr False, ?w2)"
    unfolding option.case by (rule pair_fstI) code_simp
  have c: "commands ?w2 = [[''idf.py'', ''-B'', ''build/cmake-build-esp32'', ''elf''],
        [''idf.py'', ''-B'', ''build/cmake-build-esp32c6'', ''build'']]"
    by code_simp
  from build_all_fail_fast [OF h1 h2 h3, of "[''esp32s3'']"] c show ?thesis
    by simp
qed

subsection \<open>The incremental build\<close>

text \<open>
  C5 (as the code has it). For every platform whose ELF artifact exists, \<open>build_all\<close> with
  \<open>skip_build\<close> off chooses the incremental build: once the set-up has raised nothing it
  calls \<^verbatim>\<open>idf.py -B <cmake dir> elf\<close>, and it declares success exactly when the set-up
  raises nothing, the command starts, its output decodes and its exit code is zero; when
  the exit code is not zero the buffered output is printed, followed by the error status,
  and the build fails.
\<close>

theorem build_consecutively_exit_code:
  assumes elf: "find_elf_file platform w = Inr (Some elf)"
  shows "(fst (build_all ext version [platform] False w) = Inr True \<longleftrightarrow>
           (\<exists>w1 process output.
              build_setup version platform w = (Inr (), w1)
            \<and> run_process ext [''idf.py'', ''-B'', get_cmake_path platform, ''elf''] (fs w1)
                = Inr process
            \<and> wait_for_process process = Inr output
            \<and> returncode process = 0))
       \<and> (\<forall>w1 process output.
              build_setup version platform w = (Inr (), w1)
            \<and> run_process ext [''idf.py'', ''-B'', get_cmake_path platform, ''elf''] (fs w1)
                = Inr process
            \<and> wait_for_process process = Inr output
            \<and> returncode process \<noteq> 0
            \<longrightarrow> fst (build_all ext version [platform] False w) = Inr False
              \<and> out (snd (build_all ext version [platform] False w))
                  = out (print_verbose (''Running command: '' @
                           str_join '' '' [''idf.py'', ''-B'', get_cmake_path platform, ''elf''])
                         (print_status_busy (''Building '' @ platform @ '' ELF'') w1))
                    @ map Print output @ [StatusError (''Building '' @ platform @ '' ELF'')])
       \<and> (\<forall>w1. build_setup version platform w = (Inr (), w1)
            \<longrightarrow> commands (snd (build_all ext version [platform] False w))
                  = commands w1 @ [[''idf.py'', ''-B'', get_cmake_path platform, ''elf'']])"
proof (cases "build_setup version platform w")
  case (Pair r w1)
  note single = build_all_single [OF elf, of ext version False]
  show ?thesis
  proof (cases r)
    case (Inl e)
    with Pair have "build_consecutively ext version platform False w = (Inl e, w1)"
      by (simp add: build_consecutively_def io_bind_def)
    with Pair Inl show ?thesis
      unfolding single by simp
  next
    case (Inr u)
    with Pair have prep: "build_setup version platform w = (Inr (), w1)"
      by simp
    let ?cmd = "[''idf.py'', ''-B'', get_cmake_path platform, ''elf'']"
    let ?w2 = "print_verbose (''Running command: '' @ str_join '' '' ?cmd)
                 (print_status_busy (''Building '' @ platform @ '' ELF'') w1)"
    have bc: "build_consecutively ext version platform False w =
      (case popen_wait ext ?cmd ?w2 of
         (Inl e, w3) \<Rightarrow> (Inl e, w3)
       | (Inr (rc, build_output), w3) \<Rightarrow>
           if rc = 0
           then (Inr True, print_status_success (''Building '' @ platform @ '' ELF'') w3)
           else (Inr False, print_status_error (''Building '' @ platform @ '' ELF'')
                              (print_lines build_output w3)))"
      by (simp only: build_consecutively_def io_bind_def prep prod.case sum.case Let_def if_False)
    have fs2: "fs ?w2 = fs w1" and c2: "commands ?w2 = commands w1"
      by simp_all
    show ?thesis
    proof (cases "run_process ext ?cmd (fs w1)")
      case (Inl e)
      then have "build_consecutively ext version platform False w
                   = (Inl e, ?w2\<lparr>commands := commands ?w2 @ [?cmd]\<rparr>)"
        unfolding bc by (simp add: popen_wait_def)
      with Inl prep show ?thesis
        unfolding single by (simp del: str_join.simps)
    next
      case run: (Inr process)
      show ?thesis
      proof (cases "wait_for_process process")
        case (Inl e)
        then have "build_consecutively ext version platform False w
                     = (Inl e, ?w2\<lparr>fs := fs_after process, commands := commands ?w2 @ [?cmd]\<rparr>)"
          unfolding bc by (simp add: popen_wait_def run)
        with Inl run prep show ?thesis
          unfolding single by (simp del: str_join.simps)
      next
        case wait: (Inr buf)
        let ?w3 = "?w2\<lparr>fs := fs_after process, commands := commands ?w2 @ [?cmd]\<rparr>"
        have "build_consecutively ext version platform False w =
                (if returncode process = 0
                 then (Inr True, print_status_success (''Building '' @ platform @ '' ELF'') ?w3)
                 else (Inr False, print_status_error (''Building '' @ platform @ '' ELF'')
                                    (print_lines buf ?w3)))"
          unfolding bc by (simp add: popen_wait_def run wait)
        with run wait prep show ?thesis
          unfolding single
          by (simp add: print_status_error_def print_status_success_def print_lines_def emit_def
                del: str_join.simps)
      qed
    qed
  qed
qed

theorem build_consecutively_exit_code_witness:
  "fst (build_all example_build ''0.6.0'' [''esp32''] False example_world) = Inr True
   \<and> commands (snd (build_all example_build ''0.6.0'' [''esp32''] False example_world))
       = [[''idf.py'', ''-B'', ''build/cmake-build-esp32'', ''elf'']]"
proof -
  let ?w1 = "snd (build_setup ''0.6.0'' ''esp32'' example_world)"
  let ?p = "\<lparr> rounds = [[Text ''[1/1] Linking'']], remaining = [], returncode = 0,
               fs_after = fs ?w1 \<rparr>"
  have h0: "find_elf_file ''esp32'' example_world = Inr (Some ''build/cmake-build-esp32/hello.app.elf'')"
    by code_simp
  have h1: "build_setup ''0.6.0'' ''esp32'' example_world = (Inr (), ?w1)"
    by (rule pair_fstI) code_simp
  have g: "get_cmake_path ''esp32'' = ''build/cmake-build-esp32''"
    by code_simp
  have h2: "run_process example_build [''idf.py'', ''-B'', get_cmake_path ''esp32'', ''elf''] (fs ?w1)
              = Inr ?p"
    unfolding g by (simp add: example_build_def example_tool_def)
  have h3: "wait_for_process ?p = Inr [''[1/1] Linking'']"
    by (simp add: wait_for_process_def)
  have c: "commands ?w1 = []"
    by code_simp
  have h4: "returncode ?p = 0"
    by simp
  note t = build_consecutively_exit_code [OF h0, of example_build "''0.6.0''"]
  from t h1 h2 h3 h4
  have r: "fst (build_all example_build ''0.6.0'' [''esp32''] False example_world) = Inr True"
    by blast
  from t h1
  have cm: "commands (snd (build_all example_build ''0.6.0'' [''esp32''] False example_world))
              = commands ?w1 @ [[''idf.py'', ''-B'', get_cmake_path ''esp32'', ''elf'']]"
    by blast
  show ?thesis
  proof (intro conjI)
    show "fst (build_all example_build ''0.6.0'' [''esp32''] False example_world) = Inr True"
      by (rule r)
    show "commands (snd (build_all example_build ''0.6.0'' [''esp32''] False example_world))
            = [[''idf.py'', ''-B'', ''build/cmake-build-esp32'', ''elf'']]"
      unfolding cm c g by simp
  qed
qed

text \<open>
  C5 as stated fails: with \<open>skip_build\<close> on, no command runs and success is declared
  although the tool would exit with code 1; and with \<open>skip_build\<close> off, an exit code of
  zero with output that is not UTF-8 raises instead of declaring success.
\<close>

theorem build_consecutively_counterexample:
  "find_elf_file ''esp32'' example_world = Inr (Some ''build/cmake-build-esp32/hello.app.elf'')
   \<and> fst (build_all example_externals ''0.6.0'' [''esp32''] True example_world) = Inr True
   \<and> commands (snd (build_all example_externals ''0.6.0'' [''esp32''] True example_world)) = []
   \<and> map_sum id returncode
       (run_process example_externals [''idf.py'', ''-B'', ''build/cmake-build-esp32'', ''elf'']
          example_fs) = Inr 1
   \<and> fst (build_all garbled_build ''0.6.0'' [''esp32''] False example_world)
       = Inl (UnicodeDecodeError ''invalid start byte'')
   \<and> map_sum id returncode
       (run_process garbled_build [''idf.py'', ''-B'', ''build/cmake-build-esp32'', ''elf'']
          example_fs) = Inr 0"
  by code_simp

subsection \<open>Validation of the tool metadata\<close>

text \<open>
  C8. For every tool-metadata JSON object: when one of the keys \<^verbatim>\<open>toolVersion\<close>,
  \<^verbatim>\<open>toolCompatibility\<close>, \<^verbatim>\<open>toolDownloadUrl\<close> is missing, \<open>validate_self\<close> prints an error
  and exits the process with status 1; when the keys are there and the
  \<^verbatim>\<open>toolCompatibility\<close> pattern does not match the local tool version, it prints the two
  error lines and exits with status 1; when the pattern matches and \<^verbatim>\<open>toolVersion\<close> differs
  from the local version, it prints the two warning lines only and returns normally.
\<close>

theorem validate_self_outcomes:
  "(key \<in> {''toolVersion'', ''toolCompatibility'', ''toolDownloadUrl''} \<and> map_of items key = None
      \<longrightarrow> fst (validate_self ext (JObject items) w) = Inl (SystemExit 1)
        \<and> (\<exists>m. out (snd (validate_self ext (JObject items) w)) = out w @ [Error m]))
   \<and> (map_of items ''toolVersion'' = Some tool_version
        \<and> map_of items ''toolCompatibility'' = Some (JString pattern)
        \<and> map_of items ''toolDownloadUrl'' = Some tool_download_url
        \<and> re_search ext pattern ttbuild_version = Inr False
      \<longrightarrow> fst (validate_self ext (JObject items) w) = Inl (SystemExit 1)
        \<and> (\<exists>ms. out (snd (validate_self ext (JObject items) w))
                  = out w @ ms @ [Error ''The tool is not compatible anymore.'',
                                  Error ''Run 'tactility.py updateself' to update.'']))
   \<and> (map_of items ''toolVersion'' = Some tool_version
        \<and> map_of items ''toolCompatibility'' = Some (JString pattern)
        \<and> map_of items ''toolDownloadUrl'' = Some tool_download_url
        \<and> re_search ext pattern ttbuild_version = Inr True
        \<and> tool_version \<noteq> JString ttbuild_version
      \<longrightarrow> validate_self ext (JObject items) w
          = (Inr (), w\<lparr>out := out w @
               [Warning (''New version available: '' @ str_json ext tool_version
                  @ '' (currently using '' @ ttbuild_version @ '')''),
                Warning ''Run 'tactility.py updateself' to update.'']\<rparr>))"
proof -
  have missing: "fst (validate_self ext (JObject items) w) = Inl (SystemExit 1)
        \<and> (\<exists>m. out (snd (validate_self ext (JObject items) w)) = out w @ [Error m])"
    if a: "key \<in> {''toolVersion'', ''toolCompatibility'', ''toolDownloadUrl''}
             \<and> map_of items key = None"
  proof (cases "map_of items ''toolVersion''")
    case None
    then show ?thesis
      by (simp add: validate_self_def io_bind_def io_read_def py_contains_def
            exit_with_error_def print_error_def emit_def)
  next
    case v: (Some tv)
    show ?thesis
    proof (cases "map_of items ''toolCompatibility''")
      case None
      with v show ?thesis
        by (simp add: validate_self_def io_bind_def io_read_def io_return_def py_contains_def
              exit_with_error_def print_error_def emit_def)
    next
      case c: (Some tc)
      with a v have "map_of items ''toolDownloadUrl'' = None"
        by auto
      with v c show ?thesis
        by (simp add: validate_self_def io_bind_def io_read_def io_return_def py_contains_def
              exit_with_error_def print_error_def emit_def)
    qed
  qed
  have incompatible: "fst (validate_self ext (JObject items) w) = Inl (SystemExit 1)
        \<and> (\<exists>ms. out (snd (validate_self ext (JObject items) w))
                  = out w @ ms @ [Error ''The tool is not compatible anymore.'',
                                  Error ''Run 'tactility.py updateself' to update.''])"
    if "map_of items ''toolVersion'' = Some tool_version
        \<and> map_of items ''toolCompatibility'' = Some (JString pattern)
        \<and> map_of items ''toolDownloadUrl'' = Some tool_download_url
        \<and> re_search ext pattern ttbuild_version = Inr False"
    using that
    by (simp add: validate_self_def io_bind_def io_read_def io_return_def py_contains_def
          py_getitem_def re_search_json_def print_error_def print_warning_def emit_def Let_def)
  have outdated: "validate_self ext (JObject items) w
          = (Inr (), w\<lparr>out := out w @
               [Warning (''New version available: '' @ str_json ext tool_version
                  @ '' (currently using '' @ ttbuild_version @ '')''),
                Warning ''Run 'tactility.py updateself' to update.'']\<rparr>)"
    if "map_of items ''toolVersion'' = Some tool_version
        \<and> map_of items ''toolCompatibility'' = Some (JString pattern)
        \<and> map_of items ''toolDownloadUrl'' = Some tool_download_url
        \<and> re_search ext pattern ttbuild_version = Inr True
        \<and> tool_version \<noteq> JString ttbuild_version"
    using that
    by (simp add: validate_self_def io_bind_def io_read_def io_return_def py_contains_def
          py_getitem_def re_search_json_def print_warning_def emit_def Let_def)
  from missing incompatible outdated show ?thesis
    by blast
qed

theorem validate_self_outcomes_witness:
  "fst (validate_self example_externals
          (JObject [(''toolVersion'', JString ''3.5.0''), (''toolCompatibility'', JString ''3.''),
                    (''toolDownloadUrl'', JString ''https://cdn.tactilityproject.org/tactility.py'')])
          empty_world) = Inr ()
   \<and> out (snd (validate_self example_externals
          (JObject [(''toolVersion'', JString ''3.5.0''), (''toolCompatibility'', JString ''3.''),
                    (''toolDownloadUrl'', JString ''https://cdn.tactilityproject.org/tactility.py'')])
          empty_world))
       = [Warning ''New version available: 3.5.0 (currently using 3.4.0)'',
          Warning ''Run 'tactility.py updateself' to update.'']
   \<and> fst (validate_self example_externals
          (JObject [(''toolVersion'', JString ''3.4.0''), (''toolCompatibility'', JString ''4.''),
                    (''toolDownloadUrl'', JString ''https://cdn.tactilityproject.org/tactility.py'')])
          empty_world) = Inl (SystemExit 1)
   \<and> fst (validate_self example_externals
          (JObject [(''toolVersion'', JString ''3.4.0''), (''toolCompatibility'', JString ''3.'')])
          empty_world) = Inl (SystemExit 1)"
proof -
  have m: "re_search example_externals ''3.'' ttbuild_version = Inr True"
    and n: "re_search example_externals ''4.'' ttbuild_version = Inr False"
    by (simp_all add: example_externals_def ttbuild_version_def)
  have d: "JString ''3.5.0'' \<noteq> JString ttbuild_version"
    by (simp add: ttbuild_version_def)
  from validate_self_outcomes
         [of "''toolDownloadUrl''"
             "[(''toolVersion'', JString ''3.5.0''), (''toolCompatibility'', JString ''3.''),
               (''toolDownloadUrl'', JString ''https://cdn.tactilityproject.org/tactility.py'')]"
             example_externals empty_world "JString ''3.5.0''" "''3.''"
             "JString ''https://cdn.tactilityproject.org/tactility.py''"] m d
  have a: "validate_self example_externals
          (JObject [(''toolVersion'', JString ''3.5.0''), (''toolCompatibility'', JString ''3.''),
                    (''toolDownloadUrl'', JString ''https://cdn.tactilityproject.org/tactility.py'')])
          empty_world
        = (Inr (), empty_world\<lparr>out := out empty_world @
               [Warning (''New version available: '' @ str_json example_externals (JString ''3.5.0'')
                  @ '' (currently using '' @ ttbuild_version @ '')''),
                Warning ''Run 'tactility.py updateself' to update.'']\<rparr>)"
    by simp
  from validate_self_outcomes
         [of "''toolDownloadUrl''"
             "[(''toolVersion'', JString ''3.4.0''), (''toolCompatibility'', JString ''4.''),
               (''toolDownloadUrl'', JString ''https://cdn.tactilityproject.org/tactility.py'')]"
             example_externals empty_world "JString ''3.4.0''" "''4.''"
             "JString ''https://cdn.tactilityproject.org/tactility.py''"] n
  have b: "fst (validate_self example_externals
          (JObject [(''toolVersion'', JString ''3.4.0''), (''toolCompatibility'', JString ''4.''),
                    (''toolDownloadUrl'', JString ''https://cdn.tactilityproject.org/tactility.py'')])
          empty_world) = Inl (SystemExit 1)"
    by simp
  from validate_self_outcomes
         [of "''toolDownloadUrl''"
             "[(''toolVersion'', JString ''3.4.0''), (''toolCompatibility'', JString ''3.'')]"
             example_externals empty_world]
  have c: "fst (validate_self example_externals
          (JObject [(''toolVersion'', JString ''3.4.0''), (''toolCompatibility'', JString ''3.'')])
          empty_world) = Inl (SystemExit 1)"
    by simp
  from a b c show ?thesis
    by (simp add: str_json_def ttbuild_version_def empty_world_def)
qed

subsection \<open>Installing on the device\<close>

lemma install_action_loop_present:
  "\<forall>p\<in>set platforms. \<exists>elf. find_elf_file p w = Inr (Some elf) \<Longrightarrow>
   install_action_loop platforms w = (Inr True, w)"
  by (induction platforms) auto

text \<open>
  C9. For every install call that gets as far as the request (every platform has its ELF
  file and the package file opens): a response with a status other than 200 is reported
  as \<^verbatim>\<open>Install failed\<close> and the call returns \<open>False\<close>; a response with status 200 is reported
  as success and the call returns \<open>True\<close>; a \<^verbatim>\<open>RequestException\<close> (what \<^verbatim>\<open>requests\<close> raises for a
  timeout, a refused connection or a DNS failure) is caught and reported as
  \<^verbatim>\<open>Install request failed\<close> with its cause, which is not the report of a non-200
  response, and the call returns \<open>False\<close>.
\<close>

theorem install_action_status:
  assumes elfs: "\<forall>p\<in>set platforms. \<exists>elf. find_elf_file p w = Inr (Some elf)"
      and pkg: "package_name platforms w = Inr package_path"
      and opened: "os_open_read package_path w = Inr file"
  shows "(\<forall>status_code.
            requests_put ext (get_url ip ''/app/install'') file = Inr status_code
            \<longrightarrow> fst (install_action ext ip platforms w) = Inr (status_code = 200)
              \<and> last (out (snd (install_action ext ip platforms w)))
                  = (if status_code = 200 then StatusSuccess ''Installing''
                     else StatusError ''Install failed''))
       \<and> (\<forall>cause.
            requests_put ext (get_url ip ''/app/install'') file = Inl (RequestException cause)
            \<longrightarrow> fst (install_action ext ip platforms w) = Inr False
              \<and> last (out (snd (install_action ext ip platforms w)))
                  = StatusError (''Install request failed: '' @ cause)
              \<and> StatusError (''Install request failed: '' @ cause) \<noteq> StatusError ''Install failed'')"
proof -
  let ?w1 = "print_status_busy ''Installing'' w"
  have fe: "find_elf_file p ?w1 = find_elf_file p w" for p
    by (rule find_elf_file_cong) simp_all
  have e1: "\<forall>p\<in>set platforms. \<exists>elf. find_elf_file p ?w1 = Inr (Some elf)"
    using elfs by (simp add: fe)
  have loop: "install_action_loop platforms ?w1 = (Inr True, ?w1)"
    using e1 by (rule install_action_loop_present)
  have p1: "package_name platforms ?w1 = Inr package_path"
    using pkg by (cases platforms) (simp_all add: package_name_def fe)
  have f1: "os_open_read package_path ?w1 = Inr file"
    using opened by (simp add: os_open_read_def split: option.splits)
  show ?thesis
    by (simp add: install_action_def loop p1 f1 Let_def print_status_error_def
          print_status_success_def emit_def)
qed

theorem install_action_status_witness:
  "fst (install_action example_externals ''192.168.1.5'' [''esp32''] example_world) = Inr True
   \<and> fst (install_action example_externals ''192.168.1.6'' [''esp32''] example_world) = Inr False
   \<and> last (out (snd (install_action example_externals ''192.168.1.6'' [''esp32''] example_world)))
       = StatusError ''Install failed''
   \<and> fst (install_action example_externals ''192.168.1.7'' [''esp32''] example_world) = Inr False
   \<and> last (out (snd (install_action example_externals ''192.168.1.7'' [''esp32''] example_world)))
       = StatusError ''Install request failed: ConnectTimeout''"
proof -
  have h1: "\<forall>p\<in>set [''esp32'']. \<exists>elf. find_elf_file p example_world = Inr (Some elf)"
  proof -
    have "find_elf_file ''esp32'' example_world = Inr (Some ''build/cmake-build-esp32/hello.app.elf'')"
      by code_simp
    then show ?thesis
      by simp
  qed
  have h2: "package_name [''esp32''] example_world = Inr ''build/hello.app''"
    by code_simp
  have h3: "os_open_read ''build/hello.app'' example_world = Inr (File ''ustar'')"
    by (simp add: os_open_read_def example_world_def example_fs_def empty_world_def)
  have r5: "requests_put example_externals (get_url ''192.168.1.5'' ''/app/install'') (File ''ustar'')
              = Inr 200"
    and r6: "requests_put example_externals (get_url ''192.168.1.6'' ''/app/install'') (File ''ustar'')
              = Inr 500"
    and r7: "requests_put example_externals (get_url ''192.168.1.7'' ''/app/install'') (File ''ustar'')
              = Inl (RequestException ''ConnectTimeout'')"
    by (simp_all add: example_externals_def get_url_def ttport_def)
  from install_action_status [OF h1 h2 h3, of example_externals "''192.168.1.5''"] r5
  have a: "fst (install_action example_externals ''192.168.1.5'' [''esp32''] example_world) = Inr True"
    by simp
  from install_action_status [OF h1 h2 h3, of example_externals "''192.168.1.6''"] r6
  have b: "fst (install_action example_externals ''192.168.1.6'' [''esp32''] example_world) = Inr False
     \<and> last (out (snd (install_action example_externals ''192.168.1.6'' [''esp32''] example_world)))
       = StatusError ''Install failed''"
    by simp
  from install_action_status [OF h1 h2 h3, of example_externals "''192.168.1.7''"] r7
  have c: "fst (install_action example_externals ''192.168.1.7'' [''esp32''] example_world) = Inr False
     \<and> last (out (snd (install_action example_externals ''192.168.1.7'' [''esp32''] example_world)))
       = StatusError ''Install request failed: ConnectTimeout''"
    by simp
  from a b c show ?thesis
    by simp
qed

end
